theory Spec2Isabelle
  imports Complex_Main "HOL-Library.Multiset"
begin

section \<open>JavaScript values carried by a request\<close>

text \<open>
  The route handlers read their input with \<^verbatim>\<open>await req.json()\<close> and destructure it, so
  every field is an untyped JavaScript value.  The body is a JSON object; a field of it is
  absent (\<open>JUndefined\<close> after destructuring), \<open>null\<close>, a boolean, a number or a string;
  arrays and nested objects as field values are outside the model.  A number is the finite value its
  JSON literal denotes, kept as an exact rational (the rounding of IEEE doubles is not
  modelled).
\<close>

datatype jsval = JUndefined | JNull | JBool bool | JNum rat | JStr string

text \<open>The result of \<^verbatim>\<open>parseFloat\<close>: a JavaScript number that may be \<^verbatim>\<open>NaN\<close> or infinite.\<close>

datatype jsnum = NaN | Fin rat | PosInfinity | NegInfinity

text \<open>The only exception the handlers can raise on scalar input: calling a method that
  the value does not have.\<close>

datatype exn = TypeError

type_synonym json_body = "string \<rightharpoonup> jsval"

text \<open>\<^verbatim>\<open>const { k } = body\<close>: a missing key destructures to \<^verbatim>\<open>undefined\<close>.\<close>

definition field :: "json_body \<Rightarrow> string \<Rightarrow> jsval" where
  "field body k = (case body k of None \<Rightarrow> JUndefined | Some v \<Rightarrow> v)"

text \<open>JavaScript truthiness, as used by \<^verbatim>\<open>!x\<close> and \<^verbatim>\<open>if (x)\<close>.\<close>

fun truthy :: "jsval \<Rightarrow> bool" where
  "truthy JUndefined = False"
| "truthy JNull = False"
| "truthy (JBool b) = b"
| "truthy (JNum r) = (r \<noteq> 0)"
| "truthy (JStr s) = (s \<noteq> [])"

subsection \<open>Strings: \<^verbatim>\<open>trim\<close>\<close>

text \<open>White space and line terminators of the ASCII range (space, tab, LF, VT, FF, CR).\<close>

definition is_ws :: "char \<Rightarrow> bool" where
  "is_ws c = (c \<in> {CHR 0x20, CHR 0x09, CHR 0x0A, CHR 0x0B, CHR 0x0C, CHR 0x0D})"

definition trim :: "string \<Rightarrow> string" where
  "trim s = rev (dropWhile is_ws (rev (dropWhile is_ws s)))"

text \<open>\<^verbatim>\<open>x?.trim()\<close>: \<^verbatim>\<open>undefined\<close> (here \<open>None\<close>) on \<^verbatim>\<open>undefined\<close> and \<^verbatim>\<open>null\<close>, the trimmed
  string on a string, and a \<^verbatim>\<open>TypeError\<close> on a boolean or a number, which have no
  \<^verbatim>\<open>trim\<close> method.\<close>

fun opt_trim :: "jsval \<Rightarrow> exn + string option" where
  "opt_trim JUndefined = Inr None"
| "opt_trim JNull = Inr None"
| "opt_trim (JStr s) = Inr (Some (trim s))"
| "opt_trim (JBool b) = Inl TypeError"
| "opt_trim (JNum r) = Inl TypeError"

subsection \<open>Numbers: \<^verbatim>\<open>toString\<close> and \<^verbatim>\<open>parseFloat\<close>\<close>

definition is_digit :: "char \<Rightarrow> bool" where
  "is_digit c = (c \<in> set ''0123456789'')"

definition digit_val :: "char \<Rightarrow> nat" where
  "digit_val c = length (takeWhile (\<lambda>d. d \<noteq> c) ''0123456789'')"

definition digit_char :: "nat \<Rightarrow> char" where
  "digit_char d = ''0123456789'' ! (d mod 10)"

fun nat_digits :: "nat \<Rightarrow> string" where
  "nat_digits n =
     (if n < 10 then [digit_char n] else nat_digits (n div 10) @ [digit_char (n mod 10)])"

declare nat_digits.simps [simp del]

fun frac_digits :: "nat \<Rightarrow> rat \<Rightarrow> string" where
  "frac_digits k r =
     (if k = 0 \<or> r = 0 then []
      else digit_char (nat \<lfloor>r * 10\<rfloor>) # frac_digits (k - 1) (r * 10 - of_int \<lfloor>r * 10\<rfloor>))"

declare frac_digits.simps [simp del]

text \<open>\<^verbatim>\<open>Number.prototype.toString\<close> on the decimal values between \<open>10\<^sup>-\<^sup>6\<close> and \<open>10\<^sup>2\<^sup>1\<close>,
  where JavaScript prints plain decimal notation: sign, integer digits and, when the value
  is not whole, a point and the fraction digits (at most 17 of them).\<close>

definition Number_toString :: "rat \<Rightarrow> string" where
  "Number_toString r =
     (let a = \<bar>r\<bar>; i = \<lfloor>a\<rfloor>; f = a - of_int i
      in (if r < 0 then ''-'' else []) @ nat_digits (nat i)
         @ (if f = 0 then [] else CHR ''.'' # frac_digits 17 f))"

text \<open>\<^verbatim>\<open>String(x)\<close> / \<^verbatim>\<open>x.toString()\<close> on a scalar.\<close>

fun toString :: "jsval \<Rightarrow> string" where
  "toString JUndefined = ''undefined''"
| "toString JNull = ''null''"
| "toString (JBool b) = (if b then ''true'' else ''false'')"
| "toString (JNum r) = Number_toString r"
| "toString (JStr s) = s"

text \<open>\<^verbatim>\<open>x?.toString()\<close>: \<^verbatim>\<open>undefined\<close> (here \<open>None\<close>) on \<^verbatim>\<open>undefined\<close> and \<^verbatim>\<open>null\<close>.\<close>

fun opt_toString :: "jsval \<Rightarrow> string option" where
  "opt_toString JUndefined = None"
| "opt_toString JNull = None"
| "opt_toString v = Some (toString v)"

definition digits_val :: "string \<Rightarrow> nat" where
  "digits_val ds = foldl (\<lambda>a c. 10 * a + digit_val c) 0 ds"

text \<open>The \<^verbatim>\<open>ExponentPart\<close> of a decimal literal: \<^verbatim>\<open>e\<close> or \<^verbatim>\<open>E\<close>, an optional sign and
  digits; anything else is not part of the number and contributes exponent 0.\<close>

definition exponent_part :: "string \<Rightarrow> int" where
  "exponent_part s =
     (case s of
        [] \<Rightarrow> 0
      | c # cs \<Rightarrow>
          if c = CHR ''e'' \<or> c = CHR ''E'' then
            (let neg = (case cs of [] \<Rightarrow> False | d # _ \<Rightarrow> d = CHR ''-'');
                 ds = (case cs of [] \<Rightarrow> []
                       | d # ds' \<Rightarrow> if d = CHR ''-'' \<or> d = CHR ''+'' then ds' else cs);
                 e = int (digits_val (takeWhile is_digit ds))
             in if neg then - e else e)
          else 0)"

text \<open>\<^verbatim>\<open>parseFloat\<close> on a string: skip leading white space, read an optional sign, then
  \<^verbatim>\<open>Infinity\<close> or the longest prefix that is a decimal literal (digits, an optional point
  and fraction, an optional exponent); \<^verbatim>\<open>NaN\<close> when there is no digit.\<close>

definition parseFloat_str :: "string \<Rightarrow> jsnum" where
  "parseFloat_str s =
     (let s1 = dropWhile is_ws s;
          neg = (case s1 of [] \<Rightarrow> False | c # _ \<Rightarrow> c = CHR ''-'');
          s2 = (case s1 of [] \<Rightarrow> []
                | c # cs \<Rightarrow> if c = CHR ''-'' \<or> c = CHR ''+'' then cs else s1)
      in if take 8 s2 = ''Infinity'' then (if neg then NegInfinity else PosInfinity)
         else
           (let ip = takeWhile is_digit s2;
                s3 = dropWhile is_digit s2;
                dot = (case s3 of [] \<Rightarrow> False | c # _ \<Rightarrow> c = CHR ''.'');
                fp = (if dot then takeWhile is_digit (tl s3) else []);
                s4 = (if dot then dropWhile is_digit (tl s3) else s3)
            in if ip = [] \<and> fp = [] then NaN
               else
                 (let m = of_nat (digits_val ip) + of_nat (digits_val fp) / 10 ^ length fp;
                      e = exponent_part s4;
                      v = (if 0 \<le> e then m * 10 ^ nat e else m / 10 ^ nat (- e))
                  in Fin (if neg then - v else v))))"

text \<open>\<^verbatim>\<open>parseFloat(x)\<close> converts its argument to a string first; on a number that round
  trip gives the number back.\<close>

fun parseFloat :: "jsval \<Rightarrow> jsnum" where
  "parseFloat (JNum r) = Fin r"
| "parseFloat v = parseFloat_str (toString v)"

definition isNaN :: "jsnum \<Rightarrow> bool" where
  "isNaN n = (n = NaN)"

text \<open>The comparison \<^verbatim>\<open>n < 0\<close> on a JavaScript number (false on \<^verbatim>\<open>NaN\<close>).\<close>

fun lt0 :: "jsnum \<Rightarrow> bool" where
  "lt0 NaN = False"
| "lt0 (Fin r) = (r < 0)"
| "lt0 PosInfinity = False"
| "lt0 NegInfinity = True"

section \<open>The Store: tasks, projects and users\<close>

text \<open>
  Modelled from the spec: the table declarations \<^verbatim>\<open>Tasks\<close>, \<^verbatim>\<open>Projects\<close> and
  \<^verbatim>\<open>UserTable\<close> of \<^verbatim>\<open>@/drizzle/schema\<close> are missing from the sources.  The records
  below carry the columns that the handlers select, set and compare, with the types section 3
  of the specification gives them.  Identities and the status are strings, as the handlers
  compare them; the two hour columns hold the text the handlers send (a numeric column of
  the query builder is read and written as a string); a time stamp is an integer.
\<close>

record task =
  task_id :: string
  projectId :: string
  employeeId :: string
  taskName :: string
  description :: "string option"
  expectedHours :: string
  actualHours :: string
  status :: string
  approvedBy :: "string option"
  approvedAt :: "int option"
  rejectionReason :: "string option"
  createdAt :: int
  updatedAt :: int

record project =
  project_id :: string
  projectName :: string
  project_description :: "string option"
  createdBy :: string
  isActive :: bool

record user_row =
  user_id :: string
  name :: string
  email :: string

text \<open>A mutating statement issued to the Store, with the identity it addresses.\<close>

datatype mutation = Insert_Task string | Update_Task string | Delete_Task string

text \<open>
  Modelled from the spec: the database handle \<^verbatim>\<open>db\<close> of \<^verbatim>\<open>@/lib/db\<close> is missing from the
  sources.  The Store is the three tables, each a list of rows, and a journal of the
  mutating statements issued so far, so that an operation that attempts no mutation leaves
  the whole value unchanged.  Statements are total: a failure of the database engine
  itself (StoreError) is not modelled.
\<close>

record db =
  Tasks :: "task list"
  Projects :: "project list"
  UserTable :: "user_row list"
  journal :: "mutation list"

text \<open>\<^verbatim>\<open>const [row] = await db.select().from(Tasks).where(eq(Tasks.id, id)).limit(1)\<close>\<close>

definition select_task :: "db \<Rightarrow> string \<Rightarrow> task option" where
  "select_task d i = find (\<lambda>t. task_id t = i) (Tasks d)"

definition select_project :: "db \<Rightarrow> string \<Rightarrow> project option" where
  "select_project d i = find (\<lambda>p. project_id p = i) (Projects d)"

definition select_user :: "db \<Rightarrow> string \<Rightarrow> user_row option" where
  "select_user d i = find (\<lambda>u. user_id u = i) (UserTable d)"

text \<open>\<^verbatim>\<open>db.update(Tasks).set(...).where(eq(Tasks.id, id)).returning()\<close>: every row with
  that identity is rewritten, and the rewritten rows are returned.\<close>

definition update_tasks :: "db \<Rightarrow> string \<Rightarrow> (task \<Rightarrow> task) \<Rightarrow> task list \<times> db" where
  "update_tasks d i f =
     (map f (filter (\<lambda>t. task_id t = i) (Tasks d)),
      d\<lparr>Tasks := map (\<lambda>t. if task_id t = i then f t else t) (Tasks d),
        journal := journal d @ [Update_Task i]\<rparr>)"

text \<open>\<^verbatim>\<open>db.delete(Tasks).where(eq(Tasks.id, id))\<close>\<close>

definition delete_tasks :: "db \<Rightarrow> string \<Rightarrow> db" where
  "delete_tasks d i =
     d\<lparr>Tasks := filter (\<lambda>t. task_id t \<noteq> i) (Tasks d),
       journal := journal d @ [Delete_Task i]\<rparr>"

text \<open>\<^verbatim>\<open>db.insert(Tasks).values(...).returning()\<close>\<close>

definition insert_task :: "db \<Rightarrow> task \<Rightarrow> task list \<times> db" where
  "insert_task d t =
     ([t], d\<lparr>Tasks := Tasks d @ [t], journal := journal d @ [Insert_Task (task_id t)]\<rparr>)"

text \<open>\<^verbatim>\<open>const [task] = rows\<close>: the first row, \<^verbatim>\<open>undefined\<close> when there is none.\<close>

definition first_row :: "'a list \<Rightarrow> 'a option" where
  "first_row rows = (case rows of [] \<Rightarrow> None | r # _ \<Rightarrow> Some r)"

section \<open>Session and responses\<close>

text \<open>
  Modelled from the spec: \<^verbatim>\<open>auth\<close> of \<^verbatim>\<open>@/lib/auth\<close> is missing from the sources; section 6
  gives its result, a session with the user's identity and role, or nothing.  The handlers
  take that result as an argument.
\<close>

record session_user =
  session_user_id :: string
  role :: string

record session =
  user :: "session_user option"

text \<open>\<^verbatim>\<open>session?.user\<close>\<close>

definition session_user_of :: "session option \<Rightarrow> session_user option" where
  "session_user_of s = (case s of None \<Rightarrow> None | Some x \<Rightarrow> user x)"

text \<open>The row that \<^verbatim>\<open>GET /api/tasks\<close> selects: the task's columns and the display fields
  of the two left joins, which are \<^verbatim>\<open>null\<close> when the joined row is missing.\<close>

record task_row =
  r_taskId :: string
  r_taskName :: string
  r_description :: "string option"
  r_expectedHours :: string
  r_actualHours :: string
  r_status :: string
  r_approvedAt :: "int option"
  r_rejectionReason :: "string option"
  r_createdAt :: int
  r_updatedAt :: int
  r_projectId :: "string option"
  r_projectName :: "string option"
  r_employeeId :: "string option"
  r_employeeName :: "string option"
  r_employeeEmail :: "string option"

text \<open>The JSON body of a response: \<^verbatim>\<open>{ error }\<close>, \<^verbatim>\<open>{ task }\<close>, \<^verbatim>\<open>{ tasks }\<close> or
  \<^verbatim>\<open>{ message }\<close>.\<close>

datatype payload =
    Error_Body string
  | Task_Body "task option"
  | Tasks_Body "task_row list"
  | Message_Body string

text \<open>\<^verbatim>\<open>NextResponse.json(body, { status })\<close>\<close>

datatype response = NextResponse (json: payload) (http_status: nat)

section \<open>\<^verbatim>\<open>app/api/tasks/[id]/route.ts\<close>\<close>

text \<open>
  \<^verbatim>\<open>PUT\<close>: the arguments are the result of \<^verbatim>\<open>auth()\<close>, the parsed request body,
  \<^verbatim>\<open>params.id\<close>, the value of \<^verbatim>\<open>new Date()\<close> and the Store; the result is the response and
  the Store afterwards.  An exception inside the \<^verbatim>\<open>try\<close> block ends in the \<^verbatim>\<open>catch\<close>
  branch with status 500.  The test \<^verbatim>\<open>!taskName?.trim()\<close> holds when the name is absent or
  \<^verbatim>\<open>null\<close> and when the trimmed string is empty; past it, \<^verbatim>\<open>taskName.trim()\<close> is that
  trimmed string.  A column whose new value is \<^verbatim>\<open>undefined\<close> is left out of the
  \<^verbatim>\<open>SET\<close> clause and keeps its value.
\<close>

definition PUT :: "session option \<Rightarrow> json_body \<Rightarrow> string \<Rightarrow> int \<Rightarrow> db \<Rightarrow> response \<times> db" where
  "PUT sess body params_id now d =
     (case session_user_of sess of
        None \<Rightarrow> (NextResponse (Error_Body ''Unauthorized'') 401, d)
      | Some u \<Rightarrow>
         (let taskName' = field body ''taskName'';
              description' = field body ''description'';
              expectedHours' = field body ''expectedHours'';
              actualHours' = field body ''actualHours''
          in
          case opt_trim taskName' of
            Inl e \<Rightarrow> (NextResponse (Error_Body ''Failed to update task'') 500, d)
          | Inr None \<Rightarrow> (NextResponse (Error_Body ''Task name is required'') 400, d)
          | Inr (Some trimmed) \<Rightarrow>
              if trimmed = [] then
                (NextResponse (Error_Body ''Task name is required'') 400, d)
              else if actualHours' \<noteq> JUndefined \<and>
                      (isNaN (parseFloat actualHours') \<or> lt0 (parseFloat actualHours')) then
                (NextResponse (Error_Body ''Actual hours must be a positive number'') 400, d)
              else
                (case select_task d params_id of
                   None \<Rightarrow> (NextResponse (Error_Body ''Task not found'') 404, d)
                 | Some existingTask \<Rightarrow>
                     if employeeId existingTask \<noteq> session_user_id u \<and>
                        role u \<noteq> ''platform_admin'' then
                       (NextResponse (Error_Body ''Forbidden'') 403, d)
                     else if status existingTask \<noteq> ''pending'' \<and>
                             role u \<noteq> ''platform_admin'' then
                       (NextResponse (Error_Body ''Cannot edit approved/rejected tasks'') 403, d)
                     else
                       (case opt_trim description' of
                          Inl e \<Rightarrow> (NextResponse (Error_Body ''Failed to update task'') 500, d)
                        | Inr dtrim \<Rightarrow>
                            (let (rows, d') =
                               update_tasks d params_id
                                 (\<lambda>t. t\<lparr>taskName := trimmed,
                                        description :=
                                          (case dtrim of None \<Rightarrow> None
                                           | Some s \<Rightarrow> if s = [] then None else Some s),
                                        expectedHours :=
                                          (case opt_toString expectedHours' of
                                             None \<Rightarrow> expectedHours t | Some h \<Rightarrow> h),
                                        actualHours :=
                                          (case opt_toString actualHours' of
                                             None \<Rightarrow> actualHours t | Some h \<Rightarrow> h),
                                        updatedAt := now\<rparr>)
                             in (NextResponse (Task_Body (first_row rows)) 200, d'))))))"

text \<open>\<^verbatim>\<open>DELETE\<close>: the arguments are the result of \<^verbatim>\<open>auth()\<close>, \<^verbatim>\<open>params.id\<close> and the Store.\<close>

definition DELETE :: "session option \<Rightarrow> string \<Rightarrow> db \<Rightarrow> response \<times> db" where
  "DELETE sess params_id d =
     (case session_user_of sess of
        None \<Rightarrow> (NextResponse (Error_Body ''Unauthorized'') 401, d)
      | Some u \<Rightarrow>
         (case select_task d params_id of
            None \<Rightarrow> (NextResponse (Error_Body ''Task not found'') 404, d)
          | Some existingTask \<Rightarrow>
              if employeeId existingTask \<noteq> session_user_id u \<and>
                 role u \<noteq> ''platform_admin'' then
                (NextResponse (Error_Body ''Forbidden'') 403, d)
              else
                (NextResponse (Message_Body ''Task deleted successfully'') 200,
                 delete_tasks d params_id)))"

section \<open>\<^verbatim>\<open>app/api/tasks/route.ts\<close>\<close>

text \<open>A value bound as a parameter of a statement reaches the Store as its text; an
  absent or \<^verbatim>\<open>null\<close> value for a nullable column is stored as \<^verbatim>\<open>NULL\<close>.\<close>

definition nullable_text :: "jsval \<Rightarrow> string option" where
  "nullable_text v = (if v = JUndefined \<or> v = JNull then None else Some (toString v))"

text \<open>
  \<^verbatim>\<open>POST\<close>: the arguments are the result of \<^verbatim>\<open>auth()\<close>, the parsed request body, the
  identity and the time stamp that the Store's column defaults give the new row, and the
  Store.  The approval columns of the new row take their default, \<^verbatim>\<open>NULL\<close>.
\<close>

definition POST :: "session option \<Rightarrow> json_body \<Rightarrow> string \<Rightarrow> int \<Rightarrow> db \<Rightarrow> response \<times> db" where
  "POST sess body new_id now d =
     (case session_user_of sess of
        None \<Rightarrow> (NextResponse (Error_Body ''Unauthorized'') 401, d)
      | Some u \<Rightarrow>
         (let projectId' = field body ''projectId'';
              taskName' = field body ''taskName'';
              description' = field body ''description'';
              expectedHours' = field body ''expectedHours'';
              actualHours' = field body ''actualHours''
          in
          if \<not> truthy projectId' \<or> \<not> truthy taskName' \<or>
             \<not> truthy expectedHours' \<or> \<not> truthy actualHours' then
            (NextResponse (Error_Body ''All required fields must be provided'') 400, d)
          else
            (case select_project d (toString projectId') of
               None \<Rightarrow> (NextResponse (Error_Body ''Project not found'') 404, d)
             | Some project \<Rightarrow>
                 (let (rows, d') =
                    insert_task d
                      \<lparr>task_id = new_id,
                       projectId = toString projectId',
                       employeeId = session_user_id u,
                       taskName = toString taskName',
                       description = nullable_text description',
                       expectedHours = toString expectedHours',
                       actualHours = toString actualHours',
                       status = ''pending'',
                       approvedBy = None,
                       approvedAt = None,
                       rejectionReason = None,
                       createdAt = now,
                       updatedAt = now\<rparr>
                  in (NextResponse (Task_Body (first_row rows)) 201, d')))))"

text \<open>\<^verbatim>\<open>if (v) conditions.push(eq(column, v))\<close>, where \<^verbatim>\<open>v = searchParams.get(k)\<close> is a
  string or \<^verbatim>\<open>null\<close>: nothing is pushed for \<^verbatim>\<open>null\<close> and for the empty string.\<close>

definition push_condition :: "string option \<Rightarrow> (task \<Rightarrow> string) \<Rightarrow> (task \<Rightarrow> bool) list" where
  "push_condition v column =
     (case v of None \<Rightarrow> [] | Some x \<Rightarrow> if x = [] then [] else [\<lambda>t. column t = x])"

text \<open>\<^verbatim>\<open>.orderBy(desc(Tasks.createdAt))\<close>; rows with equal time stamps keep their order.\<close>

definition orderBy_desc_createdAt :: "task list \<Rightarrow> task list" where
  "orderBy_desc_createdAt ts = sort_key (\<lambda>t. - createdAt t) ts"

text \<open>The selected columns of one task after the two left joins.  An identity is a primary
  key, so a join finds at most one row.\<close>

definition select_row :: "db \<Rightarrow> task \<Rightarrow> task_row" where
  "select_row d t =
     (let u = select_user d (employeeId t); p = select_project d (projectId t)
      in \<lparr>r_taskId = task_id t,
          r_taskName = taskName t,
          r_description = description t,
          r_expectedHours = expectedHours t,
          r_actualHours = actualHours t,
          r_status = status t,
          r_approvedAt = approvedAt t,
          r_rejectionReason = rejectionReason t,
          r_createdAt = createdAt t,
          r_updatedAt = updatedAt t,
          r_projectId = map_option project_id p,
          r_projectName = map_option projectName p,
          r_employeeId = map_option user_id u,
          r_employeeName = map_option name u,
          r_employeeEmail = map_option email u\<rparr>)"

text \<open>
  \<^verbatim>\<open>GET\<close>: the arguments are the result of \<^verbatim>\<open>auth()\<close>, the query parameters of the URL
  (\<^verbatim>\<open>searchParams.get\<close>) and the Store.
\<close>

definition GET :: "session option \<Rightarrow> (string \<rightharpoonup> string) \<Rightarrow> db \<Rightarrow> response \<times> db" where
  "GET sess searchParams d =
     (case session_user_of sess of
        None \<Rightarrow> (NextResponse (Error_Body ''Unauthorized'') 401, d)
      | Some u \<Rightarrow>
         (let projectId' = searchParams ''projectId'';
              status' = searchParams ''status'';
              employeeId' = searchParams ''employeeId'';
              conditions = push_condition projectId' projectId
                           @ push_condition status' status
                           @ push_condition employeeId' employeeId;
              matching = (if length conditions > 0
                          then filter (\<lambda>t. list_all (\<lambda>c. c t) conditions) (Tasks d)
                          else Tasks d);
              tasks = map (select_row d) (orderBy_desc_createdAt matching)
          in (NextResponse (Tasks_Body tasks) 200, d)))"

section \<open>A small Store for concrete runs\<close>

text \<open>Two employees and an administrator; one project; a pending, an approved and a
  rejected task.\<close>

definition alice :: session_user where
  "alice = \<lparr>session_user_id = ''u1'', role = ''employee''\<rparr>"

definition bob :: session_user where
  "bob = \<lparr>session_user_id = ''u2'', role = ''employee''\<rparr>"

definition admin :: session_user where
  "admin = \<lparr>session_user_id = ''a1'', role = ''platform_admin''\<rparr>"

definition signed_in :: "session_user \<Rightarrow> session option" where
  "signed_in u = Some \<lparr>user = Some u\<rparr>"

definition task1 :: task where
  "task1 = \<lparr>task_id = ''t1'', projectId = ''p1'', employeeId = ''u1'',
            taskName = ''Wireframes'', description = None,
            expectedHours = ''10'', actualHours = ''12'', status = ''pending'',
            approvedBy = None, approvedAt = None, rejectionReason = None,
            createdAt = 100, updatedAt = 100\<rparr>"

definition task2 :: task where
  "task2 = \<lparr>task_id = ''t2'', projectId = ''p1'', employeeId = ''u1'',
            taskName = ''Landing page'', description = Some ''hero and footer'',
            expectedHours = ''5'', actualHours = ''3'', status = ''approved'',
            approvedBy = Some ''a1'', approvedAt = Some 350, rejectionReason = None,
            createdAt = 300, updatedAt = 350\<rparr>"

definition task3 :: task where
  "task3 = \<lparr>task_id = ''t3'', projectId = ''p1'', employeeId = ''u2'',
            taskName = ''Icons'', description = None,
            expectedHours = ''2.5'', actualHours = ''4'', status = ''rejected'',
            approvedBy = None, approvedAt = None, rejectionReason = Some ''duplicate'',
            createdAt = 200, updatedAt = 250\<rparr>"

definition example_db :: db where
  "example_db =
     \<lparr>Tasks = [task1, task2, task3],
      Projects = [\<lparr>project_id = ''p1'', projectName = ''Website Redesign'',
                   project_description = None, createdBy = ''a1'', isActive = True\<rparr>],
      UserTable = [\<lparr>user_id = ''u1'', name = ''Alice'', email = ''alice@example.org''\<rparr>,
                   \<lparr>user_id = ''u2'', name = ''Bob'', email = ''bob@example.org''\<rparr>,
                   \<lparr>user_id = ''a1'', name = ''Root'', email = ''root@example.org''\<rparr>],
      journal = []\<rparr>"

text \<open>The body that the administrator's dashboard sends on save (\<^verbatim>\<open>handleSaveEdit\<close>):
  \<^verbatim>\<open>taskName\<close>, \<^verbatim>\<open>expectedHours\<close>, \<^verbatim>\<open>status\<close> and \<^verbatim>\<open>createdAt\<close>.\<close>

definition dashboard_body :: json_body where
  "dashboard_body =
     [''taskName'' \<mapsto> JStr ''Wireframes v2'', ''expectedHours'' \<mapsto> JNum 8,
      ''status'' \<mapsto> JStr ''approved'', ''createdAt'' \<mapsto> JStr ''2024-01-01'']"

text \<open>A body for \<^verbatim>\<open>POST\<close> that also carries an \<^verbatim>\<open>employeeId\<close> and a \<^verbatim>\<open>status\<close>, which
  the handler does not read.\<close>

definition create_body :: json_body where
  "create_body =
     [''projectId'' \<mapsto> JStr ''p1'', ''taskName'' \<mapsto> JStr ''Sitemap'',
      ''expectedHours'' \<mapsto> JNum 3, ''actualHours'' \<mapsto> JStr ''2.5'',
      ''employeeId'' \<mapsto> JStr ''u2'', ''status'' \<mapsto> JStr ''approved'']"

section \<open>Properties\<close>

subsection \<open>Evaluation and shared lemmas\<close>

lemmas run_defs = session_user_of_def signed_in_def
  alice_def bob_def admin_def example_db_def task1_def task2_def task3_def field_def
  select_task_def select_project_def select_user_def update_tasks_def delete_tasks_def
  insert_task_def first_row_def trim_def is_ws_def isNaN_def dashboard_body_def

lemma find_filter_neq: "find (\<lambda>t. f t = i) (filter (\<lambda>t. f t \<noteq> i) xs) = None"
  by (induction xs) auto





lemma list_all2_map_same:
  assumes "\<And>x. x \<in> set xs \<Longrightarrow> P x (g x)"
  shows "list_all2 P xs (map g xs)"
  using assms by (induction xs) auto

lemma PUT_ok_is_update:
  assumes "PUT sess body i now d = (r, d')" and "http_status r = 200"
  shows "d' = snd (update_tasks d i
                  (\<lambda>t. t\<lparr>taskName :=
                           (case opt_trim (field body ''taskName'') of
                              Inr (Some s) \<Rightarrow> s | _ \<Rightarrow> []),
                         description :=
                           (case opt_trim (field body ''description'') of
                              Inr (Some s) \<Rightarrow> if s = [] then None else Some s | _ \<Rightarrow> None),
                         expectedHours :=
                           (case opt_toString (field body ''expectedHours'') of
                              None \<Rightarrow> expectedHours t | Some h \<Rightarrow> h),
                         actualHours :=
                           (case opt_toString (field body ''actualHours'') of
                              None \<Rightarrow> actualHours t | Some h \<Rightarrow> h),
                         updatedAt := now\<rparr>))"
  using assms unfolding PUT_def Let_def
  by (auto split: option.splits sum.splits if_splits prod.splits)

lemma PUT_unchanged_or_ok:
  assumes "PUT sess body i now d = (r, d')"
  shows "d' = d \<or> http_status r = 200"
  using assms unfolding PUT_def Let_def
  by (simp split: option.splits sum.splits if_splits prod.splits) auto

lemma DELETE_unchanged_or_ok:
  assumes "DELETE sess i d = (r, d')"
  shows "d' = d \<or> http_status r = 200"
  using assms unfolding DELETE_def
  by (auto split: option.splits if_splits)

subsection \<open>Update of a decided task\<close>




subsection \<open>Update by a caller who neither owns the task nor administers\<close>




subsection \<open>Delete\<close>

text \<open>
  Claim C3.  Delete applies the ownership and role check only.  For every existing task
  \<open>t\<close>, of any status: when the caller owns the task or is an administrator the answer is
  200 and no task with that identity is left in the Store; any other authenticated caller
  is answered with 403 \<^verbatim>\<open>Forbidden\<close> and the Store is as it was.  The status of \<open>t\<close> does not
  occur in the statement: it holds for pending, approved and rejected tasks alike.
\<close>

theorem DELETE_authorization:
  assumes "session_user_of sess = Some u" and "select_task d i = Some t"
  shows "(session_user_id u = employeeId t \<or> role u = ''platform_admin'' \<longrightarrow>
            fst (DELETE sess i d) = NextResponse (Message_Body ''Task deleted successfully'') 200 \<and>
            Tasks (snd (DELETE sess i d)) = filter (\<lambda>x. task_id x \<noteq> i) (Tasks d) \<and>
            select_task (snd (DELETE sess i d)) i = None)
       \<and> (session_user_id u \<noteq> employeeId t \<and> role u \<noteq> ''platform_admin'' \<longrightarrow>
            fst (DELETE sess i d) = NextResponse (Error_Body ''Forbidden'') 403 \<and>
            snd (DELETE sess i d) = d)"
  using assms
  by (auto simp: DELETE_def delete_tasks_def select_task_def find_filter_neq)

theorem DELETE_authorization_witness:
  "fst (DELETE (signed_in alice) ''t1'' example_db)
     = NextResponse (Message_Body ''Task deleted successfully'') 200
   \<and> Tasks (snd (DELETE (signed_in alice) ''t1'' example_db)) = [task2, task3]
   \<and> fst (DELETE (signed_in alice) ''t2'' example_db)
     = NextResponse (Message_Body ''Task deleted successfully'') 200
   \<and> Tasks (snd (DELETE (signed_in alice) ''t2'' example_db)) = [task1, task3]
   \<and> fst (DELETE (signed_in bob) ''t3'' example_db)
     = NextResponse (Message_Body ''Task deleted successfully'') 200
   \<and> Tasks (snd (DELETE (signed_in bob) ''t3'' example_db)) = [task1, task2]
   \<and> fst (DELETE (signed_in admin) ''t3'' example_db)
     = NextResponse (Message_Body ''Task deleted successfully'') 200
   \<and> Tasks (snd (DELETE (signed_in admin) ''t3'' example_db)) = [task1, task2]
   \<and> DELETE (signed_in bob) ''t2'' example_db
     = (NextResponse (Error_Body ''Forbidden'') 403, example_db)"
proof -
  have t1: "select_task example_db ''t1'' = Some task1"
    and t2: "select_task example_db ''t2'' = Some task2"
    and t3: "select_task example_db ''t3'' = Some task3"
    by (simp_all add: select_task_def example_db_def task1_def task2_def task3_def)
  have s1: "session_user_of (signed_in alice) = Some alice"
    and s2: "session_user_of (signed_in admin) = Some admin"
    and s3: "session_user_of (signed_in bob) = Some bob"
    by (simp_all add: session_user_of_def signed_in_def)
  have who: "session_user_id alice = employeeId task1" "session_user_id alice = employeeId task2"
    "session_user_id bob = employeeId task3" "role admin = ''platform_admin''"
    "session_user_id bob \<noteq> employeeId task2" "role bob \<noteq> ''platform_admin''"
    by (simp_all add: alice_def bob_def admin_def task1_def task2_def task3_def)
  have rest: "filter (\<lambda>x. task_id x \<noteq> ''t1'') (Tasks example_db) = [task2, task3]"
    "filter (\<lambda>x. task_id x \<noteq> ''t2'') (Tasks example_db) = [task1, task3]"
    "filter (\<lambda>x. task_id x \<noteq> ''t3'') (Tasks example_db) = [task1, task2]"
    by (simp_all add: example_db_def task1_def task2_def task3_def)
  from DELETE_authorization [OF s1 t1] DELETE_authorization [OF s1 t2]
    DELETE_authorization [OF s3 t3] DELETE_authorization [OF s2 t3]
    DELETE_authorization [OF s3 t2] who rest
  show ?thesis by (simp add: prod_eq_iff)
qed

subsection \<open>What a successful Update writes\<close>

text \<open>
  Claim C4.  When Update answers 200, the table of tasks afterwards is the table before,
  row by row: a row with another identity is untouched, and in a row with the addressed
  identity every column other than \<^verbatim>\<open>taskName\<close>, \<^verbatim>\<open>description\<close>, \<^verbatim>\<open>expectedHours\<close>,
  \<^verbatim>\<open>actualHours\<close> and \<^verbatim>\<open>updatedAt\<close> keeps its value: the identity, \<^verbatim>\<open>projectId\<close>,
  \<^verbatim>\<open>employeeId\<close>, \<^verbatim>\<open>status\<close>, the approval columns and \<^verbatim>\<open>createdAt\<close>.  The projects and
  users are untouched.  The body is arbitrary, so this holds also when it supplies a
  \<^verbatim>\<open>status\<close> or a \<^verbatim>\<open>createdAt\<close>, as the body of the administrator's dashboard does.
\<close>

theorem PUT_frame:
  assumes "http_status (fst (PUT sess body i now d)) = 200"
  shows "list_all2
           (\<lambda>t t'. (task_id t \<noteq> i \<longrightarrow> t' = t) \<and>
                   task_id t' = task_id t \<and> projectId t' = projectId t \<and>
                   employeeId t' = employeeId t \<and> status t' = status t \<and>
                   approvedBy t' = approvedBy t \<and> approvedAt t' = approvedAt t \<and>
                   rejectionReason t' = rejectionReason t \<and> createdAt t' = createdAt t)
           (Tasks d) (Tasks (snd (PUT sess body i now d)))
       \<and> Projects (snd (PUT sess body i now d)) = Projects d
       \<and> UserTable (snd (PUT sess body i now d)) = UserTable d"
proof -
  obtain r d' where eq: "PUT sess body i now d = (r, d')"
    by (cases "PUT sess body i now d")
  with assms have "http_status r = 200" by simp
  note d' = PUT_ok_is_update [OF eq this]
  show ?thesis
    unfolding eq snd_conv d' update_tasks_def
    by (simp add: list_all2_map_same)
qed

theorem PUT_frame_witness:
  "http_status (fst (PUT (signed_in admin) dashboard_body ''t1'' 500 example_db)) = 200
   \<and> map status (Tasks (snd (PUT (signed_in admin) dashboard_body ''t1'' 500 example_db)))
       = [''pending'', ''approved'', ''rejected'']
   \<and> map createdAt (Tasks (snd (PUT (signed_in admin) dashboard_body ''t1'' 500 example_db)))
       = [100, 300, 200]
   \<and> Projects (snd (PUT (signed_in admin) dashboard_body ''t1'' 500 example_db))
       = Projects example_db"
proof -
  have ok: "http_status (fst (PUT (signed_in admin) dashboard_body ''t1'' 500 example_db)) = 200"
    by (simp add: PUT_def run_defs)
  have tasks: "Tasks example_db = [task1, task2, task3]"
    by (simp add: example_db_def)
  have before: "map status [task1, task2, task3] = [''pending'', ''approved'', ''rejected'']"
    "map createdAt [task1, task2, task3] = [100, 300, 200]"
    by (simp_all add: task1_def task2_def task3_def)
  from PUT_frame [OF ok] have
    "list_all2 (\<lambda>t t'. status t' = status t \<and> createdAt t' = createdAt t) [task1, task2, task3]
       (Tasks (snd (PUT (signed_in admin) dashboard_body ''t1'' 500 example_db)))"
    and "Projects (snd (PUT (signed_in admin) dashboard_body ''t1'' 500 example_db))
       = Projects example_db"
    unfolding tasks by (auto elim: list_all2_mono)
  then show ?thesis
    using ok before by (auto simp: list_all2_Cons1)
qed

subsection \<open>Validation in Update\<close>

text \<open>
  Claim C6.  The handler checks the task name and \<^verbatim>\<open>actualHours\<close> only; \<^verbatim>\<open>expectedHours\<close>
  is written without a check.  The owner of the pending task \<open>t1\<close> sends
  \<^verbatim>\<open>{ taskName: "Fix", expectedHours: -5 }\<close>: the answer is 200 and the task is stored with
  \<^verbatim>\<open>expectedHours\<close> \<open>-5\<close>, where the claim asks for 400.
\<close>

theorem PUT_accepts_negative_expectedHours:
  "PUT (signed_in alice) [''taskName'' \<mapsto> JStr ''Fix'', ''expectedHours'' \<mapsto> JNum (- 5)]
      ''t1'' 500 example_db
   = (NextResponse (Task_Body (Some (task1\<lparr>taskName := ''Fix'', expectedHours := ''-5'',
                                           updatedAt := 500\<rparr>))) 200,
      example_db\<lparr>Tasks := [task1\<lparr>taskName := ''Fix'', expectedHours := ''-5'',
                                   updatedAt := 500\<rparr>, task2, task3],
                 journal := [Update_Task ''t1'']\<rparr>)"
  by (simp add: PUT_def run_defs Number_toString_def nat_digits.simps digit_char_def)

text \<open>
  The two checks the handler does make hold in general: a name that is absent, \<^verbatim>\<open>null\<close> or
  blank, and an \<^verbatim>\<open>actualHours\<close> that is present but not a number or negative, are
  answered with 400.  The value of \<^verbatim>\<open>expectedHours\<close> never changes the status of the
  answer.
\<close>

lemma PUT_rejects_blank_name:
  assumes "session_user_of sess = Some u"
    and "field body ''taskName'' = JUndefined \<or> field body ''taskName'' = JNull \<or>
         (\<exists>s. field body ''taskName'' = JStr s \<and> trim s = [])"
  shows "PUT sess body i now d = (NextResponse (Error_Body ''Task name is required'') 400, d)"
  using assms by (auto simp: PUT_def Let_def)

lemma PUT_rejects_bad_actualHours:
  assumes "session_user_of sess = Some u"
    and "field body ''taskName'' = JStr nm" and "trim nm \<noteq> []"
    and "field body ''actualHours'' \<noteq> JUndefined"
    and "isNaN (parseFloat (field body ''actualHours'')) \<or>
         lt0 (parseFloat (field body ''actualHours''))"
  shows "PUT sess body i now d
         = (NextResponse (Error_Body ''Actual hours must be a positive number'') 400, d)"
  using assms by (auto simp: PUT_def Let_def)

lemma PUT_status_ignores_expectedHours:
  "http_status (fst (PUT sess (body(''expectedHours'' \<mapsto> v)) i now d))
   = http_status (fst (PUT sess body i now d))"
proof -
  have other: "field (body(''expectedHours'' \<mapsto> v)) k = field body k"
    if "k \<noteq> ''expectedHours''" for k
    using that by (simp add: field_def)
  show ?thesis
    unfolding PUT_def Let_def
    by (simp add: other update_tasks_def split: option.split sum.split)
qed

subsection \<open>Create\<close>

text \<open>
  Claim C7.  For every Create call that passes the handler's validation (the four
  required fields are truthy and the project exists), the answer is 201 with the created
  task, that task has status \<open>pending\<close> and the session user's identity as
  \<^verbatim>\<open>employeeId\<close>, and the Store holds it as the one new row of the table of tasks.  The
  body is arbitrary otherwise: an \<^verbatim>\<open>employeeId\<close> or \<^verbatim>\<open>status\<close> in it has no effect.
\<close>

theorem POST_creates_pending_task_of_caller:
  assumes sess: "session_user_of sess = Some u"
    and present: "truthy (field body ''projectId'')" "truthy (field body ''taskName'')"
      "truthy (field body ''expectedHours'')" "truthy (field body ''actualHours'')"
    and project: "select_project d (toString (field body ''projectId'')) = Some p"
  shows "\<exists>t. fst (POST sess body new_id now d) = NextResponse (Task_Body (Some t)) 201 \<and>
             status t = ''pending'' \<and> employeeId t = session_user_id u \<and>
             Tasks (snd (POST sess body new_id now d)) = Tasks d @ [t]"
  using assms by (simp add: POST_def Let_def insert_task_def first_row_def)

theorem POST_creates_pending_task_of_caller_witness:
  "\<exists>t. fst (POST (signed_in alice) create_body ''t9'' 500 example_db)
          = NextResponse (Task_Body (Some t)) 201 \<and>
       status t = ''pending'' \<and> employeeId t = ''u1'' \<and>
       Tasks (snd (POST (signed_in alice) create_body ''t9'' 500 example_db))
          = [task1, task2, task3, t]"
proof -
  have sess: "session_user_of (signed_in alice) = Some alice"
    by (simp add: session_user_of_def signed_in_def)
  have present: "truthy (field create_body ''projectId'')" "truthy (field create_body ''taskName'')"
      "truthy (field create_body ''expectedHours'')" "truthy (field create_body ''actualHours'')"
    by (simp_all add: field_def create_body_def)
  have project: "select_project example_db (toString (field create_body ''projectId''))
      = Some \<lparr>project_id = ''p1'', projectName = ''Website Redesign'',
                   project_description = None, createdBy = ''a1'', isActive = True\<rparr>"
    by (simp add: field_def create_body_def select_project_def example_db_def)
  from POST_creates_pending_task_of_caller [OF sess present project, of "''t9''" 500]
  show ?thesis by (simp add: alice_def example_db_def)
qed

text \<open>
  Claim C5, as amended.  Create by an authenticated caller answers 400 whenever
  \<^verbatim>\<open>projectId\<close>, \<^verbatim>\<open>taskName\<close>, \<^verbatim>\<open>expectedHours\<close> or \<^verbatim>\<open>actualHours\<close> is absent, \<^verbatim>\<open>null\<close> or
  the empty string, and answers 404 (not found, not a validation error) when the four are
  truthy and \<^verbatim>\<open>projectId\<close> does not resolve to a project; in both cases the Store is as it
  was.
\<close>

theorem POST_validation:
  assumes sess: "session_user_of sess = Some u"
  shows "((\<exists>k \<in> {''projectId'', ''taskName'', ''expectedHours'', ''actualHours''}.
             field body k = JUndefined \<or> field body k = JNull \<or> field body k = JStr [])
           \<longrightarrow> POST sess body new_id now d
                = (NextResponse (Error_Body ''All required fields must be provided'') 400, d))
       \<and> (truthy (field body ''projectId'') \<and> truthy (field body ''taskName'') \<and>
          truthy (field body ''expectedHours'') \<and> truthy (field body ''actualHours'') \<and>
          select_project d (toString (field body ''projectId'')) = None
           \<longrightarrow> POST sess body new_id now d
                = (NextResponse (Error_Body ''Project not found'') 404, d))"
proof (intro conjI impI)
  assume "\<exists>k \<in> {''projectId'', ''taskName'', ''expectedHours'', ''actualHours''}.
             field body k = JUndefined \<or> field body k = JNull \<or> field body k = JStr []"
  then have "\<not> truthy (field body ''projectId'') \<or> \<not> truthy (field body ''taskName'') \<or>
             \<not> truthy (field body ''expectedHours'') \<or> \<not> truthy (field body ''actualHours'')"
    by auto
  then show "POST sess body new_id now d
                = (NextResponse (Error_Body ''All required fields must be provided'') 400, d)"
    using sess by (simp add: POST_def Let_def)
next
  assume "truthy (field body ''projectId'') \<and> truthy (field body ''taskName'') \<and>
          truthy (field body ''expectedHours'') \<and> truthy (field body ''actualHours'') \<and>
          select_project d (toString (field body ''projectId'')) = None"
  then show "POST sess body new_id now d
                = (NextResponse (Error_Body ''Project not found'') 404, d)"
    using sess by (simp add: POST_def Let_def)
qed

theorem POST_validation_witness:
  "POST (signed_in alice) (create_body(''taskName'' \<mapsto> JStr [])) ''t9'' 500 example_db
     = (NextResponse (Error_Body ''All required fields must be provided'') 400, example_db)
   \<and> POST (signed_in alice) (create_body(''projectId'' \<mapsto> JStr ''p7'')) ''t9'' 500 example_db
     = (NextResponse (Error_Body ''Project not found'') 404, example_db)"
proof -
  have sess: "session_user_of (signed_in alice) = Some alice"
    by (simp add: session_user_of_def signed_in_def)
  have empty: "field (create_body(''taskName'' \<mapsto> JStr [])) ''taskName'' = JStr []"
    by (simp add: field_def)
  have present: "truthy (field (create_body(''projectId'' \<mapsto> JStr ''p7'')) ''projectId'')"
    "truthy (field (create_body(''projectId'' \<mapsto> JStr ''p7'')) ''taskName'')"
    "truthy (field (create_body(''projectId'' \<mapsto> JStr ''p7'')) ''expectedHours'')"
    "truthy (field (create_body(''projectId'' \<mapsto> JStr ''p7'')) ''actualHours'')"
    by (simp_all add: field_def create_body_def)
  have missing: "select_project example_db
      (toString (field (create_body(''projectId'' \<mapsto> JStr ''p7'')) ''projectId'')) = None"
    by (simp add: field_def select_project_def example_db_def)
  from POST_validation [OF sess, of "create_body(''taskName'' \<mapsto> JStr [])" "''t9''" 500 example_db]
    POST_validation [OF sess, of "create_body(''projectId'' \<mapsto> JStr ''p7'')" "''t9''" 500 example_db]
    empty present missing
  show ?thesis by simp
qed

text \<open>
  Claim C5 as stated fails: a \<^verbatim>\<open>projectId\<close> that resolves to no project is answered with
  404 \<^verbatim>\<open>Project not found\<close>, not with a validation error (400); a request with
  \<^verbatim>\<open>expectedHours\<close> \<open>-5\<close> is accepted with 201; and a request with \<^verbatim>\<open>actualHours\<close> \<open>0\<close> is
  refused with 400.
\<close>

theorem POST_validation_counterexample:
  "select_project example_db ''p7'' = None
   \<and> fst (POST (signed_in alice) (create_body(''projectId'' \<mapsto> JStr ''p7'')) ''t9'' 500 example_db)
       = NextResponse (Error_Body ''Project not found'') 404
   \<and> http_status (fst (POST (signed_in alice) (create_body(''expectedHours'' \<mapsto> JNum (- 5)))
        ''t9'' 500 example_db)) = 201
   \<and> http_status (fst (POST (signed_in alice) (create_body(''actualHours'' \<mapsto> JNum 0))
        ''t9'' 500 example_db)) = 400"
  by (simp add: POST_def run_defs create_body_def)

text \<open>
  The handler checks the presence of the hours and nothing else: negative hours are
  stored, the number 0 is refused as missing, and a blank task name is stored.
\<close>

lemma POST_accepts_negative_hours:
  "http_status (fst (POST (signed_in alice)
      (create_body(''expectedHours'' \<mapsto> JNum (- 5), ''actualHours'' \<mapsto> JNum (- 1)))
      ''t9'' 500 example_db)) = 201
   \<and> map expectedHours (Tasks (snd (POST (signed_in alice)
      (create_body(''expectedHours'' \<mapsto> JNum (- 5), ''actualHours'' \<mapsto> JNum (- 1)))
      ''t9'' 500 example_db))) = [''10'', ''5'', ''2.5'', ''-5'']"
  by (simp add: POST_def run_defs create_body_def Number_toString_def nat_digits.simps
      digit_char_def)

lemma POST_rejects_zero_hours:
  "http_status (fst (POST (signed_in alice) (create_body(''actualHours'' \<mapsto> JNum 0))
      ''t9'' 500 example_db)) = 400"
  by (simp add: POST_def run_defs create_body_def)

lemma POST_accepts_blank_name:
  "http_status (fst (POST (signed_in alice) (create_body(''taskName'' \<mapsto> JStr ''  ''))
      ''t9'' 500 example_db)) = 201"
  by (simp add: POST_def run_defs create_body_def)

subsection \<open>List\<close>







text \<open>On the example Store the unfiltered list is \<open>t2\<close> (created at 300), \<open>t3\<close> (200),
  \<open>t1\<close> (100).\<close>

lemma GET_example_order:
  "map r_taskId (case json (fst (GET (signed_in bob) Map.empty example_db)) of
                   Tasks_Body rows \<Rightarrow> rows | _ \<Rightarrow> []) = [''t2'', ''t3'', ''t1'']"
  by (simp add: GET_def run_defs push_condition_def orderBy_desc_createdAt_def select_row_def)

subsection \<open>Errors leave the Store alone\<close>

text \<open>
  Claim C9.  Whenever Update or Delete answers 400, 403 or 404, the Store afterwards is
  the Store before: the tables are the same and so is the journal of mutating statements,
  so none was issued.
\<close>

theorem PUT_DELETE_errors_leave_store:
  "(http_status (fst (PUT sess body i now d)) \<in> {400, 403, 404} \<longrightarrow>
      snd (PUT sess body i now d) = d)
   \<and> (http_status (fst (DELETE sess i d)) \<in> {400, 403, 404} \<longrightarrow>
      snd (DELETE sess i d) = d)"
proof -
  have "snd (PUT sess body i now d) = d \<or> http_status (fst (PUT sess body i now d)) = 200"
    by (rule PUT_unchanged_or_ok [of sess body i now d]) simp
  moreover
  have "snd (DELETE sess i d) = d \<or> http_status (fst (DELETE sess i d)) = 200"
    by (rule DELETE_unchanged_or_ok [of sess i d]) simp
  ultimately show ?thesis by auto
qed

theorem PUT_DELETE_errors_leave_store_witness:
  "PUT (signed_in alice) [''taskName'' \<mapsto> JStr ''Fix'', ''actualHours'' \<mapsto> JNum (-1)]
      ''t1'' 500 example_db
     = (NextResponse (Error_Body ''Actual hours must be a positive number'') 400, example_db)
   \<and> PUT (signed_in alice) dashboard_body ''t7'' 500 example_db
     = (NextResponse (Error_Body ''Task not found'') 404, example_db)
   \<and> PUT (signed_in alice) dashboard_body ''t2'' 500 example_db
     = (NextResponse (Error_Body ''Cannot edit approved/rejected tasks'') 403, example_db)
   \<and> DELETE (signed_in alice) ''t7'' example_db
     = (NextResponse (Error_Body ''Task not found'') 404, example_db)
   \<and> DELETE (signed_in alice) ''t3'' example_db
     = (NextResponse (Error_Body ''Forbidden'') 403, example_db)"
proof -
  have r1: "fst (PUT (signed_in alice) [''taskName'' \<mapsto> JStr ''Fix'', ''actualHours'' \<mapsto> JNum (-1)]
      ''t1'' 500 example_db) = NextResponse (Error_Body ''Actual hours must be a positive number'') 400"
    by (simp add: PUT_def run_defs)
  have r2: "fst (PUT (signed_in alice) dashboard_body ''t7'' 500 example_db)
       = NextResponse (Error_Body ''Task not found'') 404"
    by (simp add: PUT_def run_defs)
  have r3: "fst (PUT (signed_in alice) dashboard_body ''t2'' 500 example_db)
       = NextResponse (Error_Body ''Cannot edit approved/rejected tasks'') 403"
    by (simp add: PUT_def run_defs)
  have r4: "fst (DELETE (signed_in alice) ''t7'' example_db)
       = NextResponse (Error_Body ''Task not found'') 404"
    by (simp add: DELETE_def run_defs)
  have r5: "fst (DELETE (signed_in alice) ''t3'' example_db)
       = NextResponse (Error_Body ''Forbidden'') 403"
    by (simp add: DELETE_def run_defs)
  from PUT_DELETE_errors_leave_store [of "signed_in alice"
      "[''taskName'' \<mapsto> JStr ''Fix'', ''actualHours'' \<mapsto> JNum (-1)]" "''t1''" 500 example_db]
    PUT_DELETE_errors_leave_store [of "signed_in alice" dashboard_body "''t7''" 500 example_db]
    PUT_DELETE_errors_leave_store [of "signed_in alice" dashboard_body "''t2''" 500 example_db]
    PUT_DELETE_errors_leave_store [of "signed_in alice" dashboard_body "''t3''" 500 example_db]
    r1 r2 r3 r4 r5
  show ?thesis by (simp add: prod_eq_iff)
qed

end
